theory Spec2Isabelle
  imports Main "HOL-Library.Word" "HOL-Library.Multiset" "HOL-Library.List_Lexorder"
    "HOL-Library.Char_ord"
begin

section \<open>Data model of common/cli/mail.go\<close>

text \<open>
  Go strings and byte slices are byte sequences; both are modelled as \<open>string\<close>
  (a list of 8-bit characters).  Every function that performs I/O returns, next to its
  result, the list of external actions it performed, in order.
\<close>

definition CRLF :: string where
  "CRLF = [CHR 0x0D, CHR 0x0A]"

definition memMaxSize :: int where
  "memMaxSize = 10 * 2 ^ 20"

text \<open>
  Error values.  \<open>ParamError\<close> is the error of line 25, \<open>CreateTempFailed\<close> and
  \<open>ComposeFailed\<close> are the wrapping errors of lines 39 and 47, \<open>NoAddress\<close> is the
  error of line 62, \<open>EOF\<close> is \<open>io.EOF\<close>; the others are errors of the operating
  system, of a sink and of the SMTP client.
\<close>

datatype error =
    ParamError
  | CreateTempFailed error
  | ComposeFailed error
  | NoAddress
  | EOF
  | PathError string
  | ReadError
  | WriteError
  | SmtpError nat

text \<open>External actions, one constructor per call that leaves the process.\<close>

datatype event =
    EvLstat string
  | EvPrintf error
  | EvCreate string
  | EvRemove string
  | EvOpen string
  | EvFileClose string
  | EvDial string
  | EvHello string
  | EvExtension string
  | EvStartTLS string
  | EvAuth
  | EvMail string
  | EvRcpt string
  | EvData
  | EvSeek
  | EvCopy string
  | EvDataClose
  | EvQuit
  | EvClientClose
  | EvSinkClose

record MailConfig =
  User :: string
  Passwd :: string
  Host :: string
  From :: string
  To :: string
  Type :: string
  Subject :: string
  Content :: string
  ContentPath :: string
  Attachments :: string

subsection \<open>Files\<close>

text \<open>
  A file of the file system: the size \<open>Lstat\<close> reports for its path (an \<open>int64\<close>),
  the bytes a reader gets, and what ends the reading: \<open>None\<close> for a clean end of file,
  \<open>Some e\<close> for a read error after the bytes.  A path that is not in the map cannot
  be stat'ed or opened.
\<close>

record osfile =
  fsize :: "64 word"
  fdata :: string
  ferr :: "error option"

type_synonym filesys = "string \<rightharpoonup> osfile"

definition Lstat :: "filesys \<Rightarrow> string \<Rightarrow> (64 word \<times> error option) \<times> event list" where
  "Lstat fs path =
     (case fs path of
        None \<Rightarrow> ((0, Some (PathError path)), [EvLstat path])
      | Some f \<Rightarrow> ((fsize f, None), [EvLstat path]))"

text \<open>An open file: the bytes not yet read and what follows them.\<close>

type_synonym reader = "string \<times> error option"

definition Open :: "filesys \<Rightarrow> string \<Rightarrow> (error + reader) \<times> event list" where
  "Open fs path =
     (case fs path of
        None \<Rightarrow> (Inl (PathError path), [EvOpen path])
      | Some f \<Rightarrow> (Inr (fdata f, ferr f), [EvOpen path]))"

text \<open>
  \<open>r.Read(b)\<close> on an open file, \<open>len\<close> being \<open>len(b)\<close>: at the end of the bytes it
  returns 0 and \<open>io.EOF\<close> (or the read error); otherwise it overwrites the first \<open>n\<close>
  bytes of \<open>b\<close>, leaves the others as they were and returns \<open>n\<close>.
\<close>

definition Read :: "reader \<Rightarrow> nat \<Rightarrow> string \<Rightarrow> (nat \<times> error option) \<times> string \<times> reader" where
  "Read r len b =
     (case r of (rest, fe) \<Rightarrow>
        if rest = [] then ((0, Some (case fe of None \<Rightarrow> EOF | Some e \<Rightarrow> e)), b, r)
        else let n = min len (length rest)
             in ((n, None), take n rest @ drop n b, (drop n rest, fe)))"

subsection \<open>Sinks\<close>

text \<open>
  An \<open>io.Writer\<close>: the bytes it holds and the number of further bytes it accepts
  (\<open>None\<close>: no limit, as for \<open>bytes.Buffer\<close>).  A write that does not fit stores the
  prefix that fits and returns an error.
\<close>

datatype sink = Sink (data: string) (room: "nat option")

definition Write :: "sink \<Rightarrow> string \<Rightarrow> sink \<times> error option" where
  "Write s d =
     (case room s of
        None \<Rightarrow> (Sink (data s @ d) None, None)
      | Some r \<Rightarrow>
          if length d \<le> r then (Sink (data s @ d) (Some (r - length d)), None)
          else (Sink (data s @ take r d) (Some 0), Some WriteError))"

subsection \<open>strings.Split\<close>

text \<open>
  \<open>strings.Split(s, sep)\<close> for a one-byte separator: the pieces between the separators.
  The result is never empty: splitting the empty string gives one empty piece.
\<close>

fun Split :: "string \<Rightarrow> char \<Rightarrow> string list" where
  "Split [] sep = [[]]"
| "Split (c # cs) sep =
     (if c = sep then [] # Split cs sep
      else (case Split cs sep of
              [] \<Rightarrow> [[c]]
            | p # ps \<Rightarrow> (c # p) # ps))"

section \<open>base64Wrap\<close>

text \<open>
  \<open>base64.StdEncoding\<close> of the Go library: the standard alphabet, three bytes to four
  characters, the last group padded with \<open>=\<close>.
\<close>

definition encodeStd :: string where
  "encodeStd = ''ABCDEFGHIJKLMNOPQRSTUVWXYZabcdefghijklmnopqrstuvwxyz0123456789+/''"

definition b64 :: "nat \<Rightarrow> char" where
  "b64 v = encodeStd ! (v mod 64)"

fun Encode :: "string \<Rightarrow> string" where
  "Encode (a # b # c # rest) =
     (let v = of_char a * 65536 + of_char b * 256 + of_char c
      in [b64 (v div 262144), b64 (v div 4096), b64 (v div 64), b64 v]) @ Encode rest"
| "Encode [a, b] =
     (let v = of_char a * 65536 + of_char b * 256
      in [b64 (v div 262144), b64 (v div 4096), b64 (v div 64), CHR ''=''])"
| "Encode [a] =
     (let v = of_char a * 65536
      in [b64 (v div 262144), b64 (v div 4096), CHR ''='', CHR ''=''])"
| "Encode [] = []"

definition EncodedLen :: "nat \<Rightarrow> nat" where
  "EncodedLen n = (n + 2) div 3 * 4"

text \<open>\<open>Encode(dst, src)\<close> overwrites the first \<open>EncodedLen(len(src))\<close> bytes of \<open>dst\<close>.\<close>

definition Encode_into :: "string \<Rightarrow> string \<Rightarrow> string" where
  "Encode_into dst src = Encode src @ drop (length (Encode src)) dst"

definition maxRaw :: nat where
  "maxRaw = 57"

definition MaxLineLength :: nat where
  "MaxLineLength = 76"

text \<open>
  The loop of \<open>base64Wrap\<close> (lines 288 to 305).  \<open>wr\<close> is the \<open>Write\<close> method of
  \<open>w\<close>; the loop ignores what it returns, so \<open>wr\<close> gives the new state of the writer
  only.  \<open>buffer\<close> and \<open>b\<close> are the two arrays the loop reuses.  In the second branch
  \<open>out\<close> is a slice of \<open>buffer\<close>, and \<open>append\<close> stays within its capacity, so
  \<open>buffer\<close> holds \<open>out\<close> afterwards.
\<close>

function base64Wrap_loop ::
  "('w \<Rightarrow> string \<Rightarrow> 'w) \<Rightarrow> 'w \<Rightarrow> reader \<Rightarrow> string \<Rightarrow> string \<Rightarrow> 'w \<times> error option" where
  "base64Wrap_loop wr w r buffer b =
     (case Read r maxRaw b of
        ((n, Some e), b', r') \<Rightarrow> (if e = EOF then (w, None) else (w, Some e))
      | ((n, None), b', r') \<Rightarrow>
          if n = maxRaw then
            let buffer' = Encode_into buffer (take n b')
            in base64Wrap_loop wr (wr w buffer') r' buffer' b'
          else
            let out = take (EncodedLen maxRaw) buffer;
                out = Encode_into out b';
                out = out @ CRLF
            in base64Wrap_loop wr (wr w out) r' out b')"
  by pat_completeness auto
termination
  apply (relation "measure (\<lambda>(wr, w, r, buffer, b). length (fst r))")
    apply (auto simp: Read_def Let_def maxRaw_def split: if_splits prod.splits)
  done

definition base64Wrap :: "('w \<Rightarrow> string \<Rightarrow> 'w) \<Rightarrow> 'w \<Rightarrow> reader \<Rightarrow> 'w \<times> error option" where
  "base64Wrap wr w r =
     (let buffer = replicate (MaxLineLength + length CRLF) (CHR 0x00);
          buffer = take MaxLineLength buffer @ CRLF;
          b = replicate maxRaw (CHR 0x00)
      in base64Wrap_loop wr w r buffer b)"

section \<open>Library functions and choices of the runtime\<close>

text \<open>
  Functions of the Go library that \<open>mail.go\<close> calls and that are taken as they are:
  \<^item> \<open>encodeWord\<close>: the RFC 2047 encoded word that \<open>mime.QEncoding.Encode("UTF-8", s)\<close>
    returns for a string that needs encoding;
  \<^item> \<open>qpWrite\<close>, \<open>qpClose\<close>: the bytes a fresh \<open>quotedprintable.Writer\<close> passes to
    the writer under it while the input is written to it, and the bytes it passes when it
    is closed after that input;
  \<^item> \<open>TypeByExtension\<close>, \<open>Ext\<close>, \<open>Base\<close>: \<open>mime.TypeByExtension\<close>,
    \<open>filepath.Ext\<close> and \<open>filepath.Base\<close>.
\<close>

record lib =
  encodeWord :: "string \<Rightarrow> string"
  qpWrite :: "string \<Rightarrow> string"
  qpClose :: "string \<Rightarrow> string"
  TypeByExtension :: "string \<Rightarrow> string"
  Ext :: "string \<Rightarrow> string"
  Base :: "string \<Rightarrow> string"

text \<open>
  What differs from one run to the next: the random boundaries of the two
  \<open>multipart.NewWriter\<close> calls, and the order in which a \<open>range\<close> loop visits the
  entries of a map, which Go leaves unspecified.
\<close>

type_synonym MIMEHeader = "(string \<times> string list) list"

record runtime =
  outerBoundary :: string
  innerBoundary :: string
  rangeOrder :: "MIMEHeader \<Rightarrow> MIMEHeader"


text \<open>
  \<open>mime.QEncoding.Encode\<close>: a string of printable ASCII characters and tabs is returned
  as it is.
\<close>

definition needsEncoding :: "string \<Rightarrow> bool" where
  "needsEncoding s =
     list_ex (\<lambda>b. ((of_char b :: nat) < 32 \<or> (126 :: nat) < of_char b) \<and> (of_char b :: nat) \<noteq> 9) s"

definition QEncode :: "lib \<Rightarrow> string \<Rightarrow> string" where
  "QEncode lb s = (if \<not> needsEncoding s then s else encodeWord lb s)"

subsection \<open>textproto.MIMEHeader\<close>

text \<open>
  A header is a Go map from field names to lists of values: an association list whose
  keys are distinct.  \<open>Set\<close> replaces the values of a key.
\<close>

fun Set :: "MIMEHeader \<Rightarrow> string \<Rightarrow> string \<Rightarrow> MIMEHeader" where
  "Set [] k v = [(k, [v])]"
| "Set ((k', vs) # h) k v = (if k' = k then (k, [v]) # h else (k', vs) # Set h k v)"

subsection \<open>multipart.Writer\<close>

text \<open>
  The state of a \<open>multipart.Writer\<close>: its boundary and its last part, \<open>None\<close> when no
  part was created, otherwise the write error the part remembers.  The writer under it is
  the sink, passed along.
\<close>

record mpWriter =
  Boundary :: string
  lastpart :: "error option option"

definition NewWriter :: "string \<Rightarrow> mpWriter" where
  "NewWriter bnd = \<lparr>Boundary = bnd, lastpart = None\<rparr>"

definition part_header :: "MIMEHeader \<Rightarrow> string" where
  "part_header header =
     concat (map (\<lambda>(k, vs). concat (map (\<lambda>v. k @ '': '' @ v @ CRLF) vs)) (sort_key fst header))"

definition CreatePart :: "mpWriter \<Rightarrow> MIMEHeader \<Rightarrow> sink \<Rightarrow> error option \<times> mpWriter \<times> sink" where
  "CreatePart w header s =
     (case lastpart w of
        Some (Some we) \<Rightarrow> (Some we, w, s)
      | _ \<Rightarrow>
          let b = (if lastpart w \<noteq> None then CRLF @ ''--'' @ Boundary w @ CRLF
                   else ''--'' @ Boundary w @ CRLF) @ part_header header @ CRLF
          in (case Write s b of
                (s', Some err) \<Rightarrow> (Some err, w, s')
              | (s', None) \<Rightarrow> (None, w\<lparr>lastpart := Some None\<rparr>, s')))"

definition mpClose :: "mpWriter \<Rightarrow> sink \<Rightarrow> error option \<times> mpWriter \<times> sink" where
  "mpClose w s =
     (case lastpart w of
        Some (Some we) \<Rightarrow> (Some we, w, s)
      | _ \<Rightarrow>
          (case Write s (CRLF @ ''--'' @ Boundary w @ ''--'' @ CRLF) of
             (s', err) \<Rightarrow> (err, w\<lparr>lastpart := None\<rparr>, s')))"

text \<open>Writing to the last part: the error of a failed write is kept in the part.\<close>

definition part_Write :: "mpWriter \<times> sink \<Rightarrow> string \<Rightarrow> mpWriter \<times> sink" where
  "part_Write ws d =
     (case ws of (w, s) \<Rightarrow>
        (case Write s d of
           (s', Some err) \<Rightarrow> (w\<lparr>lastpart := Some (Some err)\<rparr>, s')
         | (s', None) \<Rightarrow> (w, s')))"

section \<open>Composing the message\<close>

definition Headers :: "MailConfig \<Rightarrow> MIMEHeader \<times> error option" where
  "Headers e =
     (let res = [];
          res = (if map_of res ''To'' = None \<and> 0 < length (To e) then Set res ''To'' (To e) else res);
          res = (if map_of res ''Subject'' = None \<and> Subject e \<noteq> [] then Set res ''Subject'' (Subject e)
                 else res);
          res = (if map_of res ''From'' = None then Set res ''From'' (From e) else res)
      in (res, None))"

text \<open>
  \<open>headerToBytes\<close>: four writes for every value, whose results are dropped.
  \<open>header_line\<close> is the text of the four.
\<close>

definition header_value :: "lib \<Rightarrow> string \<Rightarrow> string \<Rightarrow> string" where
  "header_value lb field subval =
     (if field = ''Content-Type'' \<or> field = ''Content-Disposition'' then subval
      else QEncode lb subval)"


definition write_subval :: "lib \<Rightarrow> string \<Rightarrow> sink \<Rightarrow> string \<Rightarrow> sink" where
  "write_subval lb field w subval =
     (let w = fst (Write w field);
          w = fst (Write w '': '');
          w = fst (Write w (header_value lb field subval));
          w = fst (Write w CRLF)
      in w)"

definition headerToBytes :: "lib \<Rightarrow> runtime \<Rightarrow> sink \<Rightarrow> MIMEHeader \<Rightarrow> sink" where
  "headerToBytes lb rt w header =
     foldl (\<lambda>w (field, vals). foldl (write_subval lb field) w vals) w (rangeOrder rt header)"

text \<open>
  \<open>attach\<close>.  \<open>Header.Set\<close> brings a key to its canonical form, which changes
  \<open>Content-ID\<close> only.  The events are the opening of the file and its deferred closing.
\<close>

definition attach ::
  "lib \<Rightarrow> filesys \<Rightarrow> mpWriter \<Rightarrow> sink \<Rightarrow> string \<Rightarrow> error option \<times> mpWriter \<times> sink \<times> event list" where
  "attach lb fs w s filename =
     (let typ = TypeByExtension lb (Ext lb filename);
          Header = [];
          Header = (if typ \<noteq> [] then Set Header ''Content-Type'' typ
                    else Set Header ''Content-Type'' ''application/octet-stream'');
          basename = Base lb filename;
          Header = Set Header ''Content-Disposition''
                     (''attachment;'' @ CRLF @ '' filename='' @ [CHR 0x22] @ basename @ [CHR 0x22]);
          Header = Set Header ''Content-Id'' (''<'' @ basename @ ''>'');
          Header = Set Header ''Content-Transfer-Encoding'' ''base64''
      in (case Open fs filename of
            (Inl err, ev) \<Rightarrow> (Some err, w, s, ev)
          | (Inr File, ev) \<Rightarrow>
              (case CreatePart w Header s of
                 (Some err, w, s) \<Rightarrow> (Some err, w, s, ev @ [EvFileClose filename])
               | (None, w, s) \<Rightarrow>
                   (case base64Wrap part_Write (w, s) File of
                      ((w, s), err) \<Rightarrow> (err, w, s, ev @ [EvFileClose filename])))))"

text \<open>The loop of lines 202 to 208; \<open>w.Close()\<close> runs when an attachment fails.\<close>

fun Writer_attachments ::
  "lib \<Rightarrow> filesys \<Rightarrow> mpWriter \<Rightarrow> sink \<Rightarrow> string list \<Rightarrow> error option \<times> mpWriter \<times> sink \<times> event list" where
  "Writer_attachments lb fs w s [] = (None, w, s, [])"
| "Writer_attachments lb fs w s (path # list) =
     (case attach lb fs w s path of
        (Some err, w, s, ev) \<Rightarrow>
          (case mpClose w s of (_, w, s) \<Rightarrow> (Some err, w, s, ev))
      | (None, w, s, ev) \<Rightarrow>
          (case Writer_attachments lb fs w s list of
             (err, w, s, ev') \<Rightarrow> (err, w, s, ev @ ev')))"

text \<open>
  Lines 158 to 199 of \<open>Writer\<close>, the part for the body.  The last component tells
  whether the content file was opened, so that its deferred closing runs when \<open>Writer\<close>
  returns.  \<open>io.Copy(qp, File)\<close> passes on what the file gives, and fails with the
  error of the sink or else with the read error of the file.
\<close>

definition Writer_body ::
  "lib \<Rightarrow> runtime \<Rightarrow> filesys \<Rightarrow> MailConfig \<Rightarrow> sink \<Rightarrow> error option \<times> sink \<times> event list \<times> bool" where
  "Writer_body lb rt fs e datawriter =
     (let subWriter = NewWriter (innerBoundary rt);
          header = Set [] ''Content-Type''
                     (''multipart/alternative;'' @ CRLF @ '' boundary='' @ Boundary subWriter @ CRLF);
          datawriter = headerToBytes lb rt datawriter header
      in if Content e \<noteq> [] then
           (let header = Set header ''Content-Type'' (''text/'' @ Type e @ ''; charset=UTF-8'');
                header = Set header ''Content-Transfer-Encoding'' ''quoted-printable''
            in (case CreatePart subWriter header datawriter of
                  (Some err, subWriter, datawriter) \<Rightarrow> (Some err, datawriter, [], False)
                | (None, subWriter, datawriter) \<Rightarrow>
                    (case Write datawriter (qpWrite lb (Content e)) of
                       (datawriter, Some err) \<Rightarrow> (Some err, datawriter, [], False)
                     | (datawriter, None) \<Rightarrow>
                         (case Write datawriter (qpClose lb (Content e)) of
                            (datawriter, Some err) \<Rightarrow> (Some err, datawriter, [], False)
                          | (datawriter, None) \<Rightarrow>
                              (case mpClose subWriter datawriter of
                                 (err, subWriter, datawriter) \<Rightarrow> (err, datawriter, [], False))))))
         else
           (let header = Set header ''Content-Type'' (''text/'' @ Type e @ ''; charset=UTF-8'');
                header = Set header ''Content-Transfer-Encoding'' ''quoted-printable''
            in (case CreatePart subWriter header datawriter of
                  (Some err, subWriter, datawriter) \<Rightarrow> (Some err, datawriter, [], False)
                | (None, subWriter, datawriter) \<Rightarrow>
                    (case Open fs (ContentPath e) of
                       (Inl err, ev) \<Rightarrow> (Some err, datawriter, ev, False)
                     | (Inr File, ev) \<Rightarrow>
                         (case Write datawriter (qpWrite lb (fst File)) of
                            (datawriter, Some err) \<Rightarrow> (Some err, datawriter, ev, True)
                          | (datawriter, None) \<Rightarrow>
                              (case snd File of
                                 Some err \<Rightarrow> (Some err, datawriter, ev, True)
                               | None \<Rightarrow>
                                   (case Write datawriter (qpClose lb (fst File)) of
                                      (datawriter, Some err) \<Rightarrow> (Some err, datawriter, ev, True)
                                    | (datawriter, None) \<Rightarrow>
                                        (case mpClose subWriter datawriter of
                                           (err, subWriter, datawriter) \<Rightarrow>
                                             (err, datawriter, ev, True)))))))))"

text \<open>
  \<open>MailConfig.Writer\<close>.  The results of \<open>headerToBytes\<close>, \<open>io.WriteString\<close> and
  \<open>fmt.Fprintf\<close> are dropped, as in the source.
\<close>

definition Writer ::
  "lib \<Rightarrow> runtime \<Rightarrow> filesys \<Rightarrow> MailConfig \<Rightarrow> sink \<Rightarrow> error option \<times> sink \<times> event list" where
  "Writer lb rt fs e datawriter =
     (case Headers e of
        (headers, Some err) \<Rightarrow> (Some err, datawriter, [])
      | (headers, None) \<Rightarrow>
          let w = NewWriter (outerBoundary rt);
              headers = Set headers ''Content-Type''
                          (''multipart/mixed;'' @ CRLF @ '' boundary='' @ Boundary w);
              datawriter = headerToBytes lb rt datawriter headers;
              datawriter = fst (Write datawriter CRLF);
              datawriter = fst (Write datawriter (''--'' @ Boundary w @ CRLF));
              (err, datawriter, ev, opened) =
                (if Content e \<noteq> [] \<or> ContentPath e \<noteq> [] then Writer_body lb rt fs e datawriter
                 else (None, datawriter, [], False));
              closing = (if opened then [EvFileClose (ContentPath e)] else [])
          in (case err of
                Some err \<Rightarrow> (Some err, datawriter, ev @ closing)
              | None \<Rightarrow>
                  if Attachments e \<noteq> [] then
                    (case Writer_attachments lb fs w datawriter (Split (Attachments e) (CHR '','')) of
                       (err, w, datawriter, ev') \<Rightarrow> (err, datawriter, ev @ ev' @ closing))
                  else (None, datawriter, ev @ closing)))"

section \<open>Size estimate\<close>

text \<open>The loop of lines 228 to 234; \<open>l\<close> is an \<open>int64\<close>, whose addition wraps.\<close>

fun Len_attachments ::
  "filesys \<Rightarrow> 64 word \<Rightarrow> string list \<Rightarrow> (64 word \<times> error option) \<times> event list" where
  "Len_attachments fs l [] = ((l, None), [])"
| "Len_attachments fs l (path # paths) =
     (case Lstat fs path of
        ((sz, Some err), ev) \<Rightarrow> ((0, Some err), ev)
      | ((sz, None), ev) \<Rightarrow>
          (case Len_attachments fs (l + sz) paths of (r, ev') \<Rightarrow> (r, ev @ ev')))"

definition Len :: "filesys \<Rightarrow> MailConfig \<Rightarrow> (64 word \<times> error option) \<times> event list" where
  "Len fs e =
     (let l = (0 :: 64 word);
          after_body = (\<lambda>l ev.
            if Attachments e \<noteq> [] then
              (case Len_attachments fs l (Split (Attachments e) (CHR '','')) of
                 (r, ev') \<Rightarrow> (r, ev @ ev'))
            else ((l, None), ev))
      in if Content e \<noteq> [] then after_body (l + of_nat (length (Content e))) []
         else if ContentPath e \<noteq> [] then
           (case Lstat fs (ContentPath e) of
              ((sz, Some err), ev) \<Rightarrow> ((0, Some err), ev)
            | ((sz, None), ev) \<Rightarrow> after_body (l + sz) ev)
         else ((0, None), []))"

section \<open>The SMTP session\<close>

text \<open>
  The mail server as the client of \<open>net/smtp\<close> sees it: the result of every call, the
  result of \<open>Rcpt\<close> depending on the position of the call and on the address.
\<close>

record server =
  dial_r :: "error option"
  hello_r :: "error option"
  starttls_ext :: bool
  starttls_r :: "error option"
  auth_r :: "error option"
  mail_r :: "error option"
  rcpt_r :: "nat \<Rightarrow> string \<Rightarrow> error option"
  data_r :: "error option"
  copy_r :: "error option"
  close_r :: "error option"
  quit_r :: "error option"

text \<open>The composed message as \<open>MailSend\<close> reads it, and whether it is an \<open>io.Seeker\<close>.\<close>

datatype body = Body (seeker: bool) (payload: string)

text \<open>
  A call whose error ends the function: \<open>step r ev rest\<close> performs the actions \<open>ev\<close>,
  returns the error \<open>r\<close> if there is one and goes on with \<open>rest\<close> otherwise.
\<close>

definition step ::
  "error option \<Rightarrow> event list \<Rightarrow> error option \<times> event list \<Rightarrow> error option \<times> event list" where
  "step r ev rest =
     (case r of
        Some err \<Rightarrow> (Some err, ev)
      | None \<Rightarrow> (case rest of (r', ev') \<Rightarrow> (r', ev @ ev')))"

text \<open>The loop of lines 90 to 94; \<open>i\<close> counts the \<open>Rcpt\<close> calls made so far.\<close>

fun rcpt_loop :: "server \<Rightarrow> nat \<Rightarrow> string list \<Rightarrow> error option \<times> event list" where
  "rcpt_loop sv i [] = (None, [])"
| "rcpt_loop sv i (addr # to) = step (rcpt_r sv i addr) [EvRcpt addr] (rcpt_loop sv (Suc i) to)"

text \<open>\<open>strings.Split(s, ":")[0]\<close>; the result of \<open>Split\<close> is never empty.\<close>

definition host_of :: "string \<Rightarrow> string" where
  "host_of h = (case Split h (CHR '':'') of [] \<Rightarrow> [] | x # _ \<Rightarrow> x)"

text \<open>Lines 70 to 115 of \<open>MailSend\<close>: what runs between \<open>Dial\<close> and the deferred \<open>Close\<close>.\<close>

definition MailSend_session ::
  "server \<Rightarrow> MailConfig \<Rightarrow> string list \<Rightarrow> body \<Rightarrow> error option \<times> event list" where
  "MailSend_session sv msg to bd =
     (let host = host_of (Host msg)
      in step (hello_r sv) [EvHello host]
        (step (if starttls_ext sv then starttls_r sv else None)
              (EvExtension ''STARTTLS'' # (if starttls_ext sv then [EvStartTLS host] else []))
        (step (auth_r sv) [EvAuth]
        (step (mail_r sv) [EvMail (From msg)]
        (case rcpt_loop sv 0 to of
           (Some err, ev) \<Rightarrow> (Some err, ev)
         | (None, ev) \<Rightarrow>
             step None ev
            (step (data_r sv) [EvData]
            (step (copy_r sv) ((if seeker bd then [EvSeek] else []) @ [EvCopy (payload bd)])
            (step (close_r sv) [EvDataClose]
            (quit_r sv, [EvQuit])))))))))"

definition MailSend :: "server \<Rightarrow> MailConfig \<Rightarrow> body \<Rightarrow> error option \<times> event list" where
  "MailSend sv msg bd =
     (let to = Split (To msg) (CHR '','')
      in if From msg = [] \<or> length to = 0 then (Some NoAddress, [])
         else (case dial_r sv of
                 Some err \<Rightarrow> (Some err, [EvDial (Host msg)])
               | None \<Rightarrow>
                   (case MailSend_session sv msg to bd of
                      (r, ev) \<Rightarrow> (r, EvDial (Host msg) # ev @ [EvClientClose]))))"

section \<open>MailRun\<close>

text \<open>
  What \<open>MailRun\<close> finds around it: the file system, the mail server, the process
  identifier, the result of creating the temporary file and the number of bytes that file
  accepts.
\<close>

record env =
  env_fs :: filesys
  env_srv :: server
  env_pid :: nat
  create_r :: "error option"
  disk_room :: "nat option"

text \<open>A call returns its error value, or panics.\<close>

datatype outcome = Returned "error option" | Panicked

text \<open>The decimal digits of \<open>%d\<close>.\<close>

function itoa :: "nat \<Rightarrow> string" where
  "itoa n = (if n < 10 then [char_of (48 + n)] else itoa (n div 10) @ [char_of (48 + n mod 10)])"
  by pat_completeness auto
termination
  by (relation "measure id") auto

text \<open>
  Lines 45 to 55: composing into \<open>file\<close> and sending it.  \<open>is_file\<close> tells whether
  \<open>file\<close> is the temporary file, which is an \<open>io.Seeker\<close> and an \<open>io.Closer\<close>, or the
  buffer, which is neither.
\<close>

definition MailRun_send ::
  "lib \<Rightarrow> runtime \<Rightarrow> env \<Rightarrow> MailConfig \<Rightarrow> sink \<Rightarrow> bool \<Rightarrow> error option \<times> event list" where
  "MailRun_send lb rt en mailConfig file is_file =
     (case Writer lb rt (env_fs en) mailConfig file of
        (Some err, file, ev) \<Rightarrow> (Some (ComposeFailed err), ev)
      | (None, file, ev) \<Rightarrow>
          (case MailSend (env_srv en) mailConfig (Body is_file (data file)) of
             (err, ev') \<Rightarrow> (err, ev @ ev' @ (if is_file then [EvSinkClose] else []))))"

text \<open>
  \<open>MailRun\<close>.  \<open>make([]byte, 0, size)\<close> panics for a negative \<open>size\<close>, which the
  wrapping sum of \<open>Len\<close> can be.  The deferred \<open>os.Remove\<close> runs last.
\<close>

definition MailRun :: "lib \<Rightarrow> runtime \<Rightarrow> env \<Rightarrow> MailConfig \<Rightarrow> outcome \<times> event list" where
  "MailRun lb rt en mailConfig =
     (if User mailConfig = [] \<or> Passwd mailConfig = [] \<or> From mailConfig = [] \<or> To mailConfig = []
      then (Returned (Some ParamError), [])
      else (case Len (env_fs en) mailConfig of
              ((sz, Some err), ev) \<Rightarrow> (Returned None, ev @ [EvPrintf err])
            | ((sz, None), ev) \<Rightarrow>
                if memMaxSize \<le> sint sz then
                  (let temp = ''.'' @ itoa (env_pid en) @ ''.tmp''
                   in (case create_r en of
                         Some err \<Rightarrow> (Returned (Some (CreateTempFailed err)), ev @ [EvCreate temp])
                       | None \<Rightarrow>
                           (case MailRun_send lb rt en mailConfig (Sink [] (disk_room en)) True of
                              (r, ev') \<Rightarrow> (Returned r, ev @ [EvCreate temp] @ ev' @ [EvRemove temp]))))
                else if sint sz < 0 then (Panicked, ev)
                else (case MailRun_send lb rt en mailConfig (Sink [] None) False of
                        (r, ev') \<Rightarrow> (Returned r, ev @ ev'))))"

section \<open>Reading a run\<close>

text \<open>The addresses of the \<open>RCPT\<close> commands of a run, in the order they were issued.\<close>

fun rcpts :: "event list \<Rightarrow> string list" where
  "rcpts [] = []"
| "rcpts (EvRcpt a # es) = a # rcpts es"
| "rcpts (e # es) = rcpts es"



section \<open>Example values\<close>

text \<open>
  The values at which the functions are evaluated below.  \<open>ex_lib\<close> stands for the
  library on the strings of these examples: short printable text, which
  \<open>quotedprintable\<close> keeps as it is and passes on when it is closed, and file names
  without directory and without a known extension.
\<close>

definition ex_lib :: lib where
  "ex_lib = \<lparr>encodeWord = (\<lambda>s. ''=?UTF-8?q?'' @ s @ ''?=''), qpWrite = (\<lambda>s. []),
     qpClose = (\<lambda>s. s), TypeByExtension = (\<lambda>x. []), Ext = (\<lambda>p. []), Base = (\<lambda>p. p)\<rparr>"

definition ex_rt :: runtime where
  "ex_rt = \<lparr>outerBoundary = ''OUT'', innerBoundary = ''IN'', rangeOrder = (\<lambda>h. h)\<rparr>"

definition ex_cfg :: MailConfig where
  "ex_cfg = \<lparr>User = ''u'', Passwd = ''p'', Host = ''mx.x.com:25'', From = ''a@x.com'',
     To = ''b@x.com'', Type = ''plain'', Subject = ''hi'', Content = [], ContentPath = [],
     Attachments = []\<rparr>"

definition ex_srv :: server where
  "ex_srv = \<lparr>dial_r = None, hello_r = None, starttls_ext = False, starttls_r = None,
     auth_r = None, mail_r = None, rcpt_r = (\<lambda>i a. None), data_r = None, copy_r = None,
     close_r = None, quit_r = None\<rparr>"

definition ex_fs :: filesys where
  "ex_fs = [''a.bin'' \<mapsto> \<lparr>fsize = 100, fdata = ''A'', ferr = None\<rparr>]"

definition ex_env :: env where
  "ex_env = \<lparr>env_fs = ex_fs, env_srv = ex_srv, env_pid = 4711, create_r = None, disk_room = None\<rparr>"

text \<open>A run with the same boundaries whose loops visit the entries of a map in the opposite order.\<close>

definition ex_rt_rev :: runtime where
  "ex_rt_rev = \<lparr>outerBoundary = ''OUT'', innerBoundary = ''IN'', rangeOrder = rev\<rparr>"

definition ex_cfg_full :: MailConfig where
  "ex_cfg_full = ex_cfg\<lparr>Content := ''hello'', Attachments := ''a.bin''\<rparr>"

text \<open>A server that refuses the greeting, and one that rejects the second recipient.\<close>

definition ex_srv_no_hello :: server where
  "ex_srv_no_hello = ex_srv\<lparr>hello_r := Some (SmtpError 421)\<rparr>"

definition ex_srv_rcpt2 :: server where
  "ex_srv_rcpt2 = ex_srv\<lparr>rcpt_r := (\<lambda>i a. if i = 1 then Some (SmtpError 550) else None)\<rparr>"

definition ex_cfg3 :: MailConfig where
  "ex_cfg3 = ex_cfg\<lparr>To := ''b@x.com,c@x.com,d@x.com''\<rparr>"

section \<open>Evaluation lemmas\<close>

lemma replicate_numeral: "replicate (numeral k) x = x # replicate (pred_numeral k) x"
  by (simp add: numeral_eq_Suc)

lemmas ex_defs = ex_lib_def ex_rt_def ex_cfg_def ex_srv_def ex_fs_def ex_env_def
  ex_srv_no_hello_def ex_srv_rcpt2_def ex_cfg3_def ex_rt_rev_def ex_cfg_full_def

section \<open>base64Wrap on a short last chunk\<close>

text \<open>
  C1.  The claim: a last chunk of fewer than 57 bytes is written as a line of its own,
  shorter encoded length, validly padded.  On a file of the one byte \<open>A\<close> the code writes
  a full line of 76 characters and CRLF, the encoding of the whole 57-byte array \<open>b\<close>
  (the byte read and 56 bytes left from before), where the claim asks for \<open>QQ==\<close> and
  CRLF: the second branch encodes \<open>b\<close> and takes \<open>len(b)\<close> where the first branch
  takes \<open>b[:n]\<close>.
\<close>

theorem base64Wrap_short_chunk_full_line:
  "base64Wrap (\<lambda>s d. fst (Write s d)) (Sink [] None) (''A'', None)
     = (Sink (''QQ'' @ replicate 74 (CHR ''A'') @ CRLF) None, None)
   \<and> Encode ''A'' = ''QQ==''"
  by (simp add: base64Wrap_def Read_def maxRaw_def MaxLineLength_def CRLF_def EncodedLen_def
      Encode_into_def Write_def b64_def encodeStd_def replicate_numeral)

section \<open>The size estimate without a body\<close>

text \<open>
  C2.  The claim: without a body the sizes of the attachments are still summed.  With no
  content, no content path and the attachment \<open>a.bin\<close> of 100 bytes, \<open>Len\<close> returns 0
  and does not stat the attachment: the last branch of the first conditional returns
  before the loop over the attachments.
\<close>

theorem Len_no_body_drops_attachments:
  "Len ex_fs (ex_cfg\<lparr>Attachments := ''a.bin''\<rparr>) = ((0, None), [])
   \<and> Len ex_fs (ex_cfg\<lparr>Content := ''hello'', Attachments := ''a.bin''\<rparr>)
       = ((105, None), [EvLstat ''a.bin''])"
  by (simp add: Len_def Lstat_def ex_defs)

section \<open>MailRun when the size estimate fails\<close>

text \<open>
  C3.  The claim: when a path cannot be stat'ed, \<open>MailRun\<close> returns the error.  With a
  content path that does not exist, \<open>MailRun\<close> prints the error and returns \<open>nil\<close>;
  nothing else is done.
\<close>

theorem MailRun_stat_failure_returns_nil:
  "MailRun ex_lib ex_rt ex_env (ex_cfg\<lparr>ContentPath := ''/missing''\<rparr>)
     = (Returned None, [EvLstat ''/missing'', EvPrintf (PathError ''/missing'')])"
  by (simp add: MailRun_def Len_def Lstat_def ex_defs)

section \<open>Writer on a sink that refuses the headers\<close>

text \<open>
  C4.  The claim: when a write to the sink fails, \<open>Writer\<close> returns an error.  On a sink
  that accepts no byte, with no body and no attachment, every write of the headers, of the
  empty line and of the opening boundary fails, and \<open>Writer\<close> returns \<open>nil\<close>.
\<close>

theorem Writer_ignores_failed_header_writes:
  "Writer ex_lib ex_rt ex_fs ex_cfg (Sink [] (Some 0)) = (None, Sink [] (Some 0), [])
   \<and> snd (Write (Sink [] (Some 0)) ''To'') = Some WriteError
   \<and> snd (Write (Sink [] (Some 0)) CRLF) = Some WriteError"
  by (simp add: Writer_def Headers_def headerToBytes_def write_subval_def Write_def NewWriter_def
      CRLF_def header_value_def QEncode_def needsEncoding_def ex_defs)

theorem Writer_ignores_failed_header_writes_witness:
  "fst (Writer ex_lib ex_rt ex_fs ex_cfg (Sink [] (Some 0))) = None
   \<and> data (fst (snd (Writer ex_lib ex_rt ex_fs ex_cfg (Sink [] (Some 0))))) = []"
  using Writer_ignores_failed_header_writes by simp

section \<open>The outer boundary\<close>

text \<open>
  C5.  The claim: when \<open>Writer\<close> succeeds, every boundary it opened is closed.  For a
  message with the body \<open>hello\<close> and no attachment, \<open>Writer\<close> succeeds and the payload
  ends with the closing marker of the inner boundary; the closing marker \<open>--OUT--\<close> of
  the outer boundary, opened by \<open>--OUT\<close>, is not written: \<open>w.Close()\<close> is called
  only when an attachment fails.
\<close>

theorem Writer_leaves_outer_boundary_open:
  "Writer ex_lib ex_rt ex_fs (ex_cfg\<lparr>Content := ''hello''\<rparr>) (Sink [] None) =
    (None,
     Sink (''To: b@x.com'' @ CRLF @ ''Subject: hi'' @ CRLF @ ''From: a@x.com'' @ CRLF
       @ ''Content-Type: multipart/mixed;'' @ CRLF @ '' boundary=OUT'' @ CRLF @ CRLF
       @ ''--OUT'' @ CRLF
       @ ''Content-Type: multipart/alternative;'' @ CRLF @ '' boundary=IN'' @ CRLF @ CRLF
       @ ''--IN'' @ CRLF @ ''Content-Transfer-Encoding: quoted-printable'' @ CRLF
       @ ''Content-Type: text/plain; charset=UTF-8'' @ CRLF @ CRLF
       @ ''hello'' @ CRLF @ ''--IN--'' @ CRLF) None,
     [])"
  by (simp add: Writer_def Writer_body_def Headers_def headerToBytes_def write_subval_def
      Write_def NewWriter_def CRLF_def header_value_def QEncode_def needsEncoding_def
      CreatePart_def mpClose_def part_header_def ex_defs)

theorem Writer_leaves_outer_boundary_open_witness:
  "fst (Writer ex_lib ex_rt ex_fs (ex_cfg\<lparr>Content := ''hello''\<rparr>) (Sink [] None)) = None
   \<and> snd (snd (Writer ex_lib ex_rt ex_fs (ex_cfg\<lparr>Content := ''hello''\<rparr>) (Sink [] None))) = []"
  using Writer_leaves_outer_boundary_open by simp

section \<open>MailSend without a recipient\<close>

text \<open>
  C6.  The claim: with an empty recipient list, sending fails before a socket is opened.
  \<open>MailSend\<close> with an empty \<open>To\<close> dials and runs the whole session, with one \<open>RCPT\<close>
  for the empty address: \<open>strings.Split\<close> of the empty string has one element, so the
  test \<open>len(to) == 0\<close> never holds.
\<close>

theorem MailSend_empty_To_dials:
  "MailSend ex_srv (ex_cfg\<lparr>To := []\<rparr>) (Body False ''x'') =
    (None,
     [EvDial ''mx.x.com:25'', EvHello ''mx.x.com'', EvExtension ''STARTTLS'', EvAuth,
      EvMail ''a@x.com'', EvRcpt [], EvData, EvCopy ''x'', EvDataClose, EvQuit, EvClientClose])"
  by (simp add: MailSend_def MailSend_session_def step_def host_of_def ex_defs)

section \<open>MailRun without credentials\<close>

text \<open>
  C10.  With an empty \<open>User\<close> or an empty \<open>Passwd\<close>, \<open>MailRun\<close> returns the
  parameter error and performs no external action: no stat, no composition, no network
  call.
\<close>

theorem MailRun_requires_credentials:
  "User c = [] \<or> Passwd c = [] \<Longrightarrow> MailRun lb rt en c = (Returned (Some ParamError), [])"
  by (auto simp add: MailRun_def)

theorem MailRun_requires_credentials_witness:
  "(User (ex_cfg\<lparr>Passwd := []\<rparr>) = [] \<or> Passwd (ex_cfg\<lparr>Passwd := []\<rparr>) = [])
   \<and> MailRun ex_lib ex_rt ex_env (ex_cfg\<lparr>Passwd := []\<rparr>) = (Returned (Some ParamError), [])"
  using MailRun_requires_credentials [of "ex_cfg\<lparr>Passwd := []\<rparr>" ex_lib ex_rt ex_env]
  by (simp add: ex_cfg_def)

section \<open>The RCPT loop\<close>

lemma rcpts_append: "rcpts (xs @ ys) = rcpts xs @ rcpts ys"
  by (induction xs rule: rcpts.induct) simp_all

lemma rcpts_map: "rcpts (map EvRcpt as) = as"
  by (induction as) simp_all



text \<open>When no recipient is rejected, the loop issues one \<open>RCPT\<close> for each, in order.\<close>

lemma rcpt_loop_all_ok:
  "(\<forall>i<length to. rcpt_r sv (k + i) (to ! i) = None) \<Longrightarrow> rcpt_loop sv k to = (None, map EvRcpt to)"
proof (induction to arbitrary: k)
  case Nil
  then show ?case by simp
next
  case (Cons a to)
  have "rcpt_r sv k a = None" using Cons.prems by force
  moreover have "\<forall>i<length to. rcpt_r sv (Suc k + i) (to ! i) = None"
    using Cons.prems by fastforce
  ultimately show ?case using Cons.IH [of "Suc k"] by (simp add: step_def)
qed

text \<open>The loop stops at the first recipient that is rejected, with its error.\<close>

lemma rcpt_loop_first_fail:
  "j < length to \<Longrightarrow> rcpt_r sv (k + j) (to ! j) = Some err \<Longrightarrow>
   (\<forall>i<j. rcpt_r sv (k + i) (to ! i) = None) \<Longrightarrow>
   rcpt_loop sv k to = (Some err, map EvRcpt (take (Suc j) to))"
proof (induction to arbitrary: k j)
  case Nil
  then show ?case by simp
next
  case (Cons a to)
  show ?case
  proof (cases j)
    case 0
    then show ?thesis using Cons.prems by (simp add: step_def)
  next
    case (Suc j')
    have a: "rcpt_r sv k a = None" using Cons.prems(3) Suc by force
    have b: "\<forall>i<j'. rcpt_r sv (Suc k + i) (to ! i) = None"
      using Cons.prems(3) Suc by fastforce
    have c: "rcpt_r sv (Suc k + j') (to ! j') = Some err" using Cons.prems(2) Suc by simp
    have d: "j' < length to" using Cons.prems(1) Suc by simp
    show ?thesis using Cons.IH [OF d c b] a Suc by (simp add: step_def)
  qed
qed


section \<open>One RCPT for each recipient, until the first rejection\<close>

text \<open>
  C9.  In a session that reaches the recipients (the connection, the greeting, the
  optional STARTTLS, the authentication and \<open>MAIL\<close> succeed), with \<open>to\<close> the pieces of
  the \<open>To\<close> field between commas: when no recipient is rejected, the \<open>RCPT\<close> commands
  of the run are the recipients in the order of the list, one for each; when recipient
  \<open>j\<close> is the first to be rejected, the \<open>RCPT\<close> commands are the recipients up to and
  including \<open>j\<close>, no \<open>DATA\<close> is issued, the result is the error of that rejection, and
  the last action of the run closes the connection.
\<close>

theorem MailSend_rcpt_in_order:
  assumes "From msg \<noteq> []" and "dial_r sv = None" and "hello_r sv = None"
    and "starttls_ext sv \<longrightarrow> starttls_r sv = None" and "auth_r sv = None" and "mail_r sv = None"
  shows "let to = Split (To msg) (CHR '',''); r = fst (MailSend sv msg bd); tr = snd (MailSend sv msg bd)
         in ((\<forall>i<length to. rcpt_r sv i (to ! i) = None) \<longrightarrow> rcpts tr = to)
          \<and> (\<forall>j<length to.
               rcpt_r sv j (to ! j) \<noteq> None \<and> (\<forall>i<j. rcpt_r sv i (to ! i) = None)
               \<longrightarrow> rcpts tr = take (Suc j) to \<and> r = rcpt_r sv j (to ! j)
                 \<and> EvData \<notin> set tr \<and> last tr = EvClientClose)"
proof -
  define to where "to = Split (To msg) (CHR '','')"
  have ok: "rcpts (snd (MailSend sv msg bd)) = to"
    if "\<forall>i<length to. rcpt_r sv i (to ! i) = None"
  proof -
    have "rcpt_loop sv 0 to = (None, map EvRcpt to)"
      using rcpt_loop_all_ok [of to sv 0] that by simp
    then show ?thesis
      using assms
      by (auto simp: MailSend_def MailSend_session_def step_def to_def [symmetric] rcpts_append
          rcpts_map Let_def split: option.splits)
  qed
  have bad: "rcpts (snd (MailSend sv msg bd)) = take (Suc j) to
      \<and> fst (MailSend sv msg bd) = rcpt_r sv j (to ! j)
      \<and> EvData \<notin> set (snd (MailSend sv msg bd))
      \<and> last (snd (MailSend sv msg bd)) = EvClientClose"
    if j: "j < length to" and f: "rcpt_r sv j (to ! j) \<noteq> None"
      and p: "\<forall>i<j. rcpt_r sv i (to ! i) = None" for j
  proof -
    from f obtain err where e: "rcpt_r sv (0 + j) (to ! j) = Some err" by auto
    have "rcpt_loop sv 0 to = (Some err, map EvRcpt (take (Suc j) to))"
      using rcpt_loop_first_fail [OF j e] p by simp
    then show ?thesis
      using assms e
      by (auto simp: MailSend_def MailSend_session_def step_def to_def [symmetric] rcpts_append
          rcpts_map Let_def split: option.splits)
  qed
  show ?thesis
    unfolding Let_def to_def [symmetric] using ok bad by blast
qed

theorem MailSend_rcpt_in_order_witness:
  "From ex_cfg3 \<noteq> [] \<and> dial_r ex_srv_rcpt2 = None \<and> hello_r ex_srv_rcpt2 = None
   \<and> \<not> starttls_ext ex_srv_rcpt2 \<and> auth_r ex_srv_rcpt2 = None \<and> mail_r ex_srv_rcpt2 = None
   \<and> Split (To ex_cfg3) (CHR '','') = [''b@x.com'', ''c@x.com'', ''d@x.com'']
   \<and> rcpts (snd (MailSend ex_srv_rcpt2 ex_cfg3 (Body False ''x''))) = [''b@x.com'', ''c@x.com'']
   \<and> fst (MailSend ex_srv_rcpt2 ex_cfg3 (Body False ''x'')) = Some (SmtpError 550)
   \<and> EvData \<notin> set (snd (MailSend ex_srv_rcpt2 ex_cfg3 (Body False ''x'')))
   \<and> last (snd (MailSend ex_srv_rcpt2 ex_cfg3 (Body False ''x''))) = EvClientClose"
proof -
  have h: "From ex_cfg3 \<noteq> []" "dial_r ex_srv_rcpt2 = None" "hello_r ex_srv_rcpt2 = None"
    "starttls_ext ex_srv_rcpt2 \<longrightarrow> starttls_r ex_srv_rcpt2 = None" "auth_r ex_srv_rcpt2 = None"
    "mail_r ex_srv_rcpt2 = None"
    by (simp_all add: ex_defs)
  have s: "Split (To ex_cfg3) (CHR '','') = [''b@x.com'', ''c@x.com'', ''d@x.com'']"
    by (simp add: ex_defs)
  note t = MailSend_rcpt_in_order [OF h, of "Body False ''x''", unfolded Let_def s,
      THEN conjunct2, rule_format, of 1]
  have r: "rcpt_r ex_srv_rcpt2 1 ([''b@x.com'', ''c@x.com'', ''d@x.com''] ! 1) = Some (SmtpError 550)"
    "\<forall>i<1. rcpt_r ex_srv_rcpt2 i ([''b@x.com'', ''c@x.com'', ''d@x.com''] ! i) = None"
    by (simp_all add: ex_defs)
  show ?thesis using t r h s by (simp add: ex_defs)
qed

section \<open>Closing the connection, and QUIT\<close>




section \<open>Writing into a sink without limit\<close>




















section \<open>Two compositions of one message\<close>




end
